theory Spec2Isabelle
  imports Complex_Main
begin

section \<open>Floating-point values of NumPy\<close>

text \<open>
  The entries of the batch, the means and the variances are NumPy \<open>float64\<close> values. They are
  modelled by the extended reals of IEEE 754 with its special values: a finite value, the two
  infinities and not-a-number. The arithmetic on finite values is exact (no rounding, no
  overflow), and the two zeros are one value. Every zero divisor of the source is a count or a
  quotient of two non-negative counts, so it is the positive zero, and a non-zero finite value
  divided by zero takes the sign of the dividend. A division by zero and an invalid operation
  of NumPy give an infinity or not-a-number and at most a warning (lines 118 to 123 silence
  it); they raise no exception, so they are values of the model and not errors.
\<close>

datatype fl = Fin real | PInf | NInf | NaN

definition isnan :: "fl \<Rightarrow> bool" where
  "isnan x = (x = NaN)"

fun fneg :: "fl \<Rightarrow> fl" where
  "fneg (Fin a) = Fin (- a)"
| "fneg PInf = NInf"
| "fneg NInf = PInf"
| "fneg NaN = NaN"

fun fadd :: "fl \<Rightarrow> fl \<Rightarrow> fl" where
  "fadd (Fin a) (Fin b) = Fin (a + b)"
| "fadd (Fin a) PInf = PInf"
| "fadd (Fin a) NInf = NInf"
| "fadd PInf (Fin b) = PInf"
| "fadd NInf (Fin b) = NInf"
| "fadd PInf PInf = PInf"
| "fadd NInf NInf = NInf"
| "fadd PInf NInf = NaN"
| "fadd NInf PInf = NaN"
| "fadd NaN y = NaN"
| "fadd x NaN = NaN"

definition fsub :: "fl \<Rightarrow> fl \<Rightarrow> fl" where
  "fsub x y = fadd x (fneg y)"

fun fmul :: "fl \<Rightarrow> fl \<Rightarrow> fl" where
  "fmul (Fin a) (Fin b) = Fin (a * b)"
| "fmul (Fin a) PInf = (if a = 0 then NaN else if 0 < a then PInf else NInf)"
| "fmul (Fin a) NInf = (if a = 0 then NaN else if 0 < a then NInf else PInf)"
| "fmul PInf (Fin b) = (if b = 0 then NaN else if 0 < b then PInf else NInf)"
| "fmul NInf (Fin b) = (if b = 0 then NaN else if 0 < b then NInf else PInf)"
| "fmul PInf PInf = PInf"
| "fmul NInf NInf = PInf"
| "fmul PInf NInf = NInf"
| "fmul NInf PInf = NInf"
| "fmul NaN y = NaN"
| "fmul x NaN = NaN"

fun fdiv :: "fl \<Rightarrow> fl \<Rightarrow> fl" where
  "fdiv (Fin a) (Fin b) =
     (if b = 0 then (if a = 0 then NaN else if 0 < a then PInf else NInf) else Fin (a / b))"
| "fdiv (Fin a) PInf = Fin 0"
| "fdiv (Fin a) NInf = Fin 0"
| "fdiv PInf (Fin b) = (if 0 \<le> b then PInf else NInf)"
| "fdiv NInf (Fin b) = (if 0 \<le> b then NInf else PInf)"
| "fdiv PInf PInf = NaN"
| "fdiv NInf NInf = NaN"
| "fdiv PInf NInf = NaN"
| "fdiv NInf PInf = NaN"
| "fdiv NaN y = NaN"
| "fdiv x NaN = NaN"

text \<open>\<open>x ** 2\<close>\<close>

definition fsquare :: "fl \<Rightarrow> fl" where
  "fsquare x = fmul x x"

text \<open>\<open>np.sqrt\<close> on one value: the root of a negative value is not-a-number.\<close>

fun fsqrt :: "fl \<Rightarrow> fl" where
  "fsqrt (Fin a) = (if a < 0 then NaN else Fin (sqrt a))"
| "fsqrt PInf = PInf"
| "fsqrt NInf = NaN"
| "fsqrt NaN = NaN"

text \<open>
  Counts are \<open>int64\<close> values; they are bounded by the number of samples seen, so they are
  modelled by unbounded integers. A count that meets a float is converted to it.
\<close>

definition of_count :: "int \<Rightarrow> fl" where
  "of_count n = Fin (of_int n)"

section \<open>Arrays and broadcasting\<close>

datatype error = ValueError | TypeError | IndexError

definition bnd :: "error + 'a \<Rightarrow> ('a \<Rightarrow> error + 'b) \<Rightarrow> error + 'b" where
  "bnd m f = (case m of Inl e \<Rightarrow> Inl e | Inr x \<Rightarrow> f x)"

text \<open>
  A value of the estimator is a scalar (\<open>0.0\<close>, a collapsed count) or a one-dimensional
  array with one entry per feature.
\<close>

datatype 'a nd = Sc 'a | Arr "'a list"

text \<open>
  An elementwise binary operation of NumPy: a scalar and an array of one entry are
  broadcast; two arrays of other, different lengths raise \<open>ValueError\<close>.
\<close>

fun np2 :: "('a \<Rightarrow> 'b \<Rightarrow> 'c) \<Rightarrow> 'a nd \<Rightarrow> 'b nd \<Rightarrow> error + 'c nd" where
  "np2 f (Sc a) (Sc b) = Inr (Sc (f a b))"
| "np2 f (Sc a) (Arr bs) = Inr (Arr (map (f a) bs))"
| "np2 f (Arr as) (Sc b) = Inr (Arr (map (\<lambda>a. f a b) as))"
| "np2 f (Arr as) (Arr bs) =
     (if length as = length bs then Inr (Arr (map2 f as bs))
      else if length as = 1 then Inr (Arr (map (f (hd as)) bs))
      else if length bs = 1 then Inr (Arr (map (\<lambda>a. f a (hd bs)) as))
      else Inl ValueError)"

fun npmap :: "('a \<Rightarrow> 'b) \<Rightarrow> 'a nd \<Rightarrow> 'b nd" where
  "npmap f (Sc a) = Sc (f a)"
| "npmap f (Arr as) = Arr (map f as)"

text \<open>Reading entry \<open>j\<close> of a value, a scalar standing for each of its broadcast copies.\<close>

fun nd_get :: "'a nd \<Rightarrow> nat \<Rightarrow> 'a" where
  "nd_get (Sc a) j = a"
| "nd_get (Arr as) j = as ! j"

text \<open>
  \<open>a[mask] = b[mask]\<close> for a boolean mask: the mask must have the length of each array it
  indexes (\<open>IndexError\<close> otherwise); a scalar supports no item assignment.
\<close>

fun mask_assign :: "'a nd \<Rightarrow> bool nd \<Rightarrow> 'a nd \<Rightarrow> error + 'a nd" where
  "mask_assign (Arr as) (Arr zs) (Arr bs) =
     (if length zs = length as \<and> length zs = length bs
      then Inr (Arr (map (\<lambda>(a, z, b). if z then b else a) (zip as (zip zs bs))))
      else Inl IndexError)"
| "mask_assign a zs b = Inl TypeError"

text \<open>
  \<open>a += b\<close>: an array is updated in place, so \<open>b\<close> must broadcast to the shape of \<open>a\<close>;
  a scalar is rebound to \<open>a + b\<close>.
\<close>

fun iadd :: "int nd \<Rightarrow> int nd \<Rightarrow> error + int nd" where
  "iadd (Arr as) (Arr bs) =
     (if length as = length bs then Inr (Arr (map2 (+) as bs))
      else if length bs = 1 then Inr (Arr (map (\<lambda>a. a + hd bs) as))
      else Inl ValueError)"
| "iadd (Arr as) (Sc b) = Inr (Arr (map (\<lambda>a. a + b) as))"
| "iadd (Sc a) b = np2 (+) (Sc a) b"

section \<open>Batches\<close>

text \<open>A batch is a list of rows (samples); each row has one entry per feature.\<close>

type_synonym batch = "fl list list"

definition shape0 :: "batch \<Rightarrow> nat" where
  "shape0 X = length X"

definition shape1 :: "batch \<Rightarrow> nat" where
  "shape1 X = (case X of [] \<Rightarrow> 0 | r # _ \<Rightarrow> length r)"

text \<open>
  \<open>check_array\<close> of scikit-learn as \<open>partial_fit\<close> calls it: the batch is a two-dimensional
  array with at least one sample and one feature, and \<open>force_all_finite='allow-nan'\<close> rejects
  an infinite entry and lets a missing one through.
\<close>

definition check_array :: "batch \<Rightarrow> error + batch" where
  "check_array X =
     (if X = [] \<or> shape1 X = 0 \<or> \<not> list_all (\<lambda>r. length r = shape1 X) X then Inl ValueError
      else if list_ex (list_ex (\<lambda>x. x = PInf \<or> x = NInf)) X then Inl ValueError
      else Inr X)"

text \<open>\<open>np.sum(~np.isnan(X), axis=0)\<close> and \<open>np.isnan(X).sum(axis=0)\<close>\<close>

definition count_nonnan :: "batch \<Rightarrow> int list" where
  "count_nonnan X = map (\<lambda>j. int (length (filter (\<lambda>r. \<not> isnan (r ! j)) X))) [0..<shape1 X]"

definition count_nan :: "batch \<Rightarrow> int list" where
  "count_nan X = map (\<lambda>j. int (length (filter (\<lambda>r. isnan (r ! j)) X))) [0..<shape1 X]"

section \<open>The privatized statistics\<close>

text \<open>
  \<open>nanmean\<close> and \<open>nanvar\<close> of \<open>diffprivlib.tools\<close> add random noise and are not part of
  the module; they are parameters of the model. With \<open>axis=0\<close> they return one value per
  feature: the functions take the batch, the budget, the range and the feature. The budget
  each call receives is recorded.
\<close>

record 'r stat_source =
  nanmean :: "batch \<Rightarrow> real \<Rightarrow> 'r \<Rightarrow> nat \<Rightarrow> fl"
  nanvar :: "batch \<Rightarrow> real \<Rightarrow> 'r \<Rightarrow> nat \<Rightarrow> fl"

datatype call = NanMean real | NanVar real

section \<open>The incremental combiner\<close>

definition mul_count :: "fl \<Rightarrow> int \<Rightarrow> fl" where
  "mul_count x n = fmul x (of_count n)"

definition div_count :: "fl \<Rightarrow> int \<Rightarrow> fl" where
  "div_count x n = fdiv x (of_count n)"

definition count_ratio :: "int \<Rightarrow> int \<Rightarrow> fl" where
  "count_ratio a b = fdiv (of_count a) (of_count b)"

definition incremental_mean_and_var ::
  "'r stat_source \<Rightarrow> batch \<Rightarrow> real \<Rightarrow> 'r \<Rightarrow> fl nd option \<Rightarrow> fl nd option \<Rightarrow> int nd
     \<Rightarrow> error + ((fl nd option \<times> fl nd option \<times> int nd) \<times> call list)" where
  "incremental_mean_and_var src X eps rg last_mean last_variance last_sample_count =
    (case last_mean of None \<Rightarrow> Inl TypeError | Some lm \<Rightarrow>
     bnd (np2 mul_count lm last_sample_count) (\<lambda>last_sum.
     let new_mean = Arr (map (nanmean src X eps rg) [0..<shape1 X]);
         new_sample_count = Arr (count_nonnan X) in
     bnd (np2 mul_count new_mean new_sample_count) (\<lambda>new_sum.
     bnd (np2 (+) last_sample_count new_sample_count) (\<lambda>updated_sample_count.
     bnd (np2 fadd last_sum new_sum) (\<lambda>total_sum.
     bnd (np2 div_count total_sum updated_sample_count) (\<lambda>updated_mean.
     case last_variance of
       None \<Rightarrow> Inr ((Some updated_mean, None, updated_sample_count), [NanMean eps])
     | Some lv \<Rightarrow>
       let new_var = Arr (map (nanvar src X eps rg) [0..<shape1 X]) in
       bnd (np2 mul_count new_var new_sample_count) (\<lambda>new_unnormalized_variance.
       bnd (np2 mul_count lv last_sample_count) (\<lambda>last_unnormalized_variance.
       bnd (np2 count_ratio last_sample_count new_sample_count) (\<lambda>last_over_new_count.
       bnd (np2 fadd last_unnormalized_variance new_unnormalized_variance) (\<lambda>both.
       bnd (np2 div_count last_over_new_count updated_sample_count) (\<lambda>factor.
       bnd (np2 fdiv last_sum last_over_new_count) (\<lambda>scaled.
       bnd (np2 fsub scaled new_sum) (\<lambda>diff.
       bnd (np2 fmul factor (npmap fsquare diff)) (\<lambda>correction.
       bnd (np2 fadd both correction) (\<lambda>updated_unnormalized_variance.
       let zeros = npmap (\<lambda>n. n = 0) last_sample_count in
       bnd (mask_assign updated_unnormalized_variance zeros new_unnormalized_variance)
         (\<lambda>updated_unnormalized_variance.
       bnd (np2 div_count updated_unnormalized_variance updated_sample_count)
         (\<lambda>updated_variance.
       Inr ((Some updated_mean, Some updated_variance, updated_sample_count),
            [NanMean eps, NanVar eps]))))))))))))))))))"

section \<open>The estimator\<close>

text \<open>
  \<open>with_std\<close> is tested both for being \<open>None\<close> and for its truth value, so it has three
  values; \<open>with_mean\<close> is tested for its truth value only.
\<close>

record 'r config =
  epsilon :: real
  range_opt :: 'r
  copy_opt :: bool
  with_mean :: bool
  with_std :: "bool option"

definition truthy :: "bool option \<Rightarrow> bool" where
  "truthy b = (b = Some True)"

text \<open>
  The fitted attributes. \<open>n_samples_seen\<close> and \<open>scale\<close> are tested with \<open>hasattr\<close>: for
  them \<open>None\<close> is the missing attribute, and \<open>Some None\<close> is a scale that is Python's
  \<open>None\<close>. The mean and the variance are written before they are read whenever the scale is
  missing; for them \<open>None\<close> is Python's \<open>None\<close>.
\<close>

record scaler =
  n_samples_seen :: "int nd option"
  mean_attr :: "fl nd option"
  var_attr :: "fl nd option"
  scale_attr :: "fl nd option option"

definition new_scaler :: scaler where
  "new_scaler = \<lparr>n_samples_seen = None, mean_attr = None, var_attr = None, scale_attr = None\<rparr>"

text \<open>\<open>np.ptp(a)\<close> of a non-empty array: the largest entry minus the smallest.\<close>

definition ptp :: "int list \<Rightarrow> int" where
  "ptp ns = fold max (tl ns) (hd ns) - fold min (tl ns) (hd ns)"

text \<open>
  Lines 192 and 193: the count becomes its first entry when all entries are equal. \<open>np.ptp\<close>
  raises on an empty array, and a scalar has no entry \<open>[0]\<close>.
\<close>

fun reduce_count :: "int nd \<Rightarrow> error + int nd" where
  "reduce_count (Sc n) = Inl IndexError"
| "reduce_count (Arr ns) =
     (if ns = [] then Inl ValueError
      else if ptp ns = 0 then Inr (Sc (hd ns)) else Inr (Arr ns))"

text \<open>\<open>_handle_zeros_in_scale\<close> of scikit-learn: a scale of zero becomes one.\<close>

definition handle_zeros_in_scale :: "fl nd \<Rightarrow> fl nd" where
  "handle_zeros_in_scale s = npmap (\<lambda>x. if x = Fin 0 then Fin 1 else x) s"

text \<open>Line 156: the budget each privatized statistic of the batch receives.\<close>

definition epsilon_0 :: "'r config \<Rightarrow> real" where
  "epsilon_0 cfg = (if with_std cfg = None then epsilon cfg else epsilon cfg / 2)"

text \<open>
  Lines 166 to 170: a count that is an integer is repeated once per feature of the batch, and
  a missing count starts at zero for each feature.
\<close>

definition count_vector :: "scaler \<Rightarrow> batch \<Rightarrow> int nd" where
  "count_vector self X =
     (let seen = (case n_samples_seen self of
                    Some (Sc n) \<Rightarrow> Some (Arr (replicate (shape1 X) n))
                  | other \<Rightarrow> other)
      in case seen of None \<Rightarrow> Arr (replicate (shape1 X) 0) | Some a \<Rightarrow> a)"

text \<open>Lines 173 to 178, the first pass: the mean and the variance the merge starts from.\<close>

definition last_mean_of :: "scaler \<Rightarrow> fl nd option" where
  "last_mean_of self = (if scale_attr self = None then Some (Sc (Fin 0)) else mean_attr self)"

definition last_var_of :: "'r config \<Rightarrow> scaler \<Rightarrow> fl nd option" where
  "last_var_of cfg self =
     (if scale_attr self = None
      then (if truthy (with_std cfg) then Some (Sc (Fin 0)) else None)
      else var_attr self)"

text \<open>Lines 195 to 198; \<open>np.sqrt(None)\<close> raises \<open>TypeError\<close>.\<close>

definition derive_scale :: "'r config \<Rightarrow> fl nd option \<Rightarrow> error + fl nd option" where
  "derive_scale cfg v =
     (if truthy (with_std cfg)
      then (case v of
              None \<Rightarrow> Inl TypeError
            | Some a \<Rightarrow> Inr (Some (handle_zeros_in_scale (npmap fsqrt a))))
      else Inr None)"

text \<open>
  \<open>partial_fit\<close> returns the estimator after the call and the calls it made to the privatized
  statistics, or the exception it raised. An estimator that raised is not followed further.
\<close>

definition partial_fit ::
  "'r config \<Rightarrow> 'r stat_source \<Rightarrow> scaler \<Rightarrow> batch \<Rightarrow> error + (scaler \<times> call list)" where
  "partial_fit cfg src self X0 =
     bnd (check_array X0) (\<lambda>X.
     bnd (if \<not> with_mean cfg \<and> \<not> truthy (with_std cfg)
          then bnd (iadd (count_vector self X)
                      (Arr (map (\<lambda>c. int (shape0 X) - c) (count_nan X))))
                 (\<lambda>seen. Inr ((None, None, seen), []))
          else incremental_mean_and_var src X (epsilon_0 cfg) (range_opt cfg)
                 (last_mean_of self) (last_var_of cfg self) (count_vector self X))
       (\<lambda>((mean2, var2, seen), calls).
     bnd (reduce_count seen) (\<lambda>seen'.
     bnd (derive_scale cfg var2) (\<lambda>scale2.
     Inr (\<lparr>n_samples_seen = Some seen', mean_attr = mean2, var_attr = var2,
           scale_attr = Some scale2\<rparr>, calls)))))"

section \<open>Shapes and invariants of the estimator\<close>

text \<open>A value fits \<open>n\<close> features when it is a scalar or an array of \<open>n\<close> entries.\<close>

fun fits :: "nat \<Rightarrow> 'a nd \<Rightarrow> bool" where
  "fits n (Sc a) = True"
| "fits n (Arr as) = (length as = n)"

definition fits_opt :: "nat \<Rightarrow> 'a nd option \<Rightarrow> bool" where
  "fits_opt n v = (case v of None \<Rightarrow> True | Some a \<Rightarrow> fits n a)"

definition shape_ok :: "nat \<Rightarrow> scaler \<Rightarrow> bool" where
  "shape_ok n self =
     (fits_opt n (n_samples_seen self) \<and>
      (scale_attr self \<noteq> None \<longrightarrow> fits_opt n (mean_attr self) \<and> fits_opt n (var_attr self)))"

fun nd_all :: "('a \<Rightarrow> bool) \<Rightarrow> 'a nd \<Rightarrow> bool" where
  "nd_all P (Sc a) = P a"
| "nd_all P (Arr as) = list_all P as"

definition counts_nonneg :: "int nd option \<Rightarrow> bool" where
  "counts_nonneg v = (case v of None \<Rightarrow> True | Some a \<Rightarrow> nd_all (\<lambda>n. 0 \<le> n) a)"

text \<open>
  What every estimator built by \<open>partial_fit\<close> calls under one configuration satisfies: its
  counts are not negative, and once fitted it holds a variance exactly when \<open>with_std\<close> is
  true and a mean exactly when a statistic is tracked.
\<close>

definition scaler_inv :: "'r config \<Rightarrow> scaler \<Rightarrow> bool" where
  "scaler_inv cfg self =
     (counts_nonneg (n_samples_seen self) \<and>
      (scale_attr self \<noteq> None \<longrightarrow>
         (var_attr self = None \<longleftrightarrow> \<not> truthy (with_std cfg)) \<and>
         (mean_attr self = None \<longleftrightarrow> \<not> with_mean cfg \<and> \<not> truthy (with_std cfg))))"

text \<open>The count of feature \<open>j\<close> before a call.\<close>

definition seen_before :: "scaler \<Rightarrow> nat \<Rightarrow> int" where
  "seen_before self j = (case n_samples_seen self of None \<Rightarrow> 0 | Some a \<Rightarrow> nd_get a j)"

section \<open>Example inputs\<close>

definition example_source :: "unit stat_source" where
  "example_source = \<lparr>nanmean = (\<lambda>X e r j. Fin 5), nanvar = (\<lambda>X e r j. Fin 0)\<rparr>"

definition example_config :: "bool \<Rightarrow> bool option \<Rightarrow> unit config" where
  "example_config m s =
     \<lparr>epsilon = 1, range_opt = (), copy_opt = True, with_mean = m, with_std = s\<rparr>"

text \<open>An estimator fitted on two samples of two features, with its count collapsed.\<close>

definition example_scaler :: scaler where
  "example_scaler =
     \<lparr>n_samples_seen = Some (Sc 2), mean_attr = Some (Arr [Fin 2, Fin 7]),
      var_attr = Some (Arr [Fin 1, Fin 0]), scale_attr = Some (Some (Arr [Fin 1, Fin 1]))\<rparr>"

lemmas model_defs =
  partial_fit_def new_scaler_def check_array_def shape1_def shape0_def bnd_def
  incremental_mean_and_var_def truthy_def count_nonnan_def count_nan_def isnan_def
  mul_count_def div_count_def count_ratio_def of_count_def fsquare_def fsub_def ptp_def
  handle_zeros_in_scale_def epsilon_0_def count_vector_def last_mean_of_def last_var_of_def
  derive_scale_def Let_def

section \<open>Arrays written as tables over the features\<close>

lemma bnd_Inr: "bnd (Inr x) f = f x"
  by (simp add: bnd_def)

lemma bnd_Inl: "bnd (Inl e) f = Inl e"
  by (simp add: bnd_def)

lemma map2_tab: "map2 f (map g xs) (map h xs) = map (\<lambda>x. f (g x) (h x)) xs"
  by (induction xs) simp_all

lemma tab_nth: "length ns = n \<Longrightarrow> Arr ns = Arr (map (\<lambda>j. ns ! j) [0..<n])"
  using map_nth [of ns] by simp

lemma np2_tab_tab:
  "np2 f (Arr (map g [0..<n])) (Arr (map h [0..<n])) =
     Inr (Arr (map (\<lambda>j. f (g j) (h j)) [0..<n]))"
  by (simp add: map2_tab)

lemma np2_fits_tab:
  assumes "fits n a"
  shows "np2 f a (Arr (map h [0..<n])) = Inr (Arr (map (\<lambda>j. f (nd_get a j) (h j)) [0..<n]))"
proof (cases a)
  case (Sc x)
  then show ?thesis by simp
next
  case (Arr as)
  with assms have "length as = n"
    by simp
  then have "Arr as = Arr (map (\<lambda>j. as ! j) [0..<n])"
    by (rule tab_nth)
  then have "np2 f (Arr as) (Arr (map h [0..<n])) =
      np2 f (Arr (map (\<lambda>j. as ! j) [0..<n])) (Arr (map h [0..<n]))"
    by simp
  also have "\<dots> = Inr (Arr (map (\<lambda>j. f (as ! j) (h j)) [0..<n]))"
    by (rule np2_tab_tab)
  finally show ?thesis using Arr by simp
qed

lemma mask_assign_tab:
  "mask_assign (Arr (map a [0..<n])) (Arr (map z [0..<n])) (Arr (map b [0..<n])) =
     Inr (Arr (map (\<lambda>j. if z j then b j else a j) [0..<n]))"
proof -
  have "map (\<lambda>(x, z, y). if z then y else x) (zip (map a xs) (zip (map z xs) (map b xs))) =
        map (\<lambda>j. if z j then b j else a j) xs" for xs :: "nat list"
    by (induction xs) simp_all
  then show ?thesis by simp
qed

lemma count_nonnan_tab: "count_nonnan X = map (\<lambda>j. count_nonnan X ! j) [0..<shape1 X]"
  by (simp add: count_nonnan_def cong: map_cong)

lemma count_nonnan_nth:
  "j < shape1 X \<Longrightarrow> count_nonnan X ! j = int (length (filter (\<lambda>r. \<not> isnan (r ! j)) X))"
  by (simp add: count_nonnan_def)

section \<open>The combiner in closed form\<close>

text \<open>
  When the prior mean, the prior variance and the prior count fit the features of the batch,
  no operation of the combiner raises, and each entry of its result is given by the entries
  of its arguments for the same feature.
\<close>

lemma combiner_mean_only:
  assumes "fits (shape1 X) lm"
  shows "incremental_mean_and_var src X eps rg (Some lm) None (Arr (map c [0..<shape1 X])) =
    Inr ((Some (Arr (map (\<lambda>j. div_count (fadd (mul_count (nd_get lm j) (c j))
                 (mul_count (nanmean src X eps rg j) (count_nonnan X ! j)))
             (c j + count_nonnan X ! j)) [0..<shape1 X])),
          None,
          Arr (map (\<lambda>j. c j + count_nonnan X ! j) [0..<shape1 X])),
         [NanMean eps])"
  unfolding incremental_mean_and_var_def Let_def
  apply (subst (1 2) count_nonnan_tab)
  apply (simp add: np2_fits_tab [OF assms] np2_tab_tab bnd_Inr del: np2.simps)
  done

lemma combiner_with_var:
  assumes "fits (shape1 X) lm" and "fits (shape1 X) lv"
  shows "incremental_mean_and_var src X eps rg (Some lm) (Some lv) (Arr (map c [0..<shape1 X])) =
    Inr ((Some (Arr (map (\<lambda>j. div_count (fadd (mul_count (nd_get lm j) (c j))
                 (mul_count (nanmean src X eps rg j) (count_nonnan X ! j)))
             (c j + count_nonnan X ! j)) [0..<shape1 X])),
          Some (Arr (map (\<lambda>j. div_count
             (if c j = 0 then mul_count (nanvar src X eps rg j) (count_nonnan X ! j)
              else fadd (fadd (mul_count (nd_get lv j) (c j))
                              (mul_count (nanvar src X eps rg j) (count_nonnan X ! j)))
                        (fmul (div_count (count_ratio (c j) (count_nonnan X ! j))
                                 (c j + count_nonnan X ! j))
                              (fsquare (fsub (fdiv (mul_count (nd_get lm j) (c j))
                                                   (count_ratio (c j) (count_nonnan X ! j)))
                                   (mul_count (nanmean src X eps rg j) (count_nonnan X ! j))))))
             (c j + count_nonnan X ! j)) [0..<shape1 X])),
          Arr (map (\<lambda>j. c j + count_nonnan X ! j) [0..<shape1 X])),
         [NanMean eps, NanVar eps])"
  unfolding incremental_mean_and_var_def Let_def
  apply (subst (1 2 3 4) count_nonnan_tab)
  apply (simp add: np2_fits_tab [OF assms(1)] np2_fits_tab [OF assms(2)] np2_tab_tab
           mask_assign_tab bnd_Inr del: np2.simps mask_assign.simps cong: if_cong)
  done

section \<open>The merge formulas\<close>

text \<open>
  Claim C2. When the prior mean and variance fit the features of the batch and the prior count
  has one entry per feature, the combiner returns, and for each feature \<open>j\<close>: \<open>countNew\<close> is
  the number of entries of the feature in the batch that are not missing, the updated count is
  \<open>countOld + countNew\<close>, and the updated mean is
  \<open>(meanOld * countOld + meanNew * countNew) / countUpdated\<close>, where \<open>meanNew\<close> is the
  privatized mean of the batch for the feature.
\<close>

theorem incremental_mean_formula:
  assumes "fits (shape1 X) lm"
    and "fits_opt (shape1 X) lv"
    and "length ns = shape1 X"
    and "j < shape1 X"
  shows "\<exists>upd_mean upd_var upd_count calls.
     incremental_mean_and_var src X eps rg (Some lm) lv (Arr ns) =
       Inr ((Some upd_mean, upd_var, upd_count), calls) \<and>
     (let countOld = ns ! j;
          countNew = int (length (filter (\<lambda>r. \<not> isnan (r ! j)) X));
          meanOld = nd_get lm j;
          meanNew = nanmean src X eps rg j;
          countUpdated = countOld + countNew
      in nd_get upd_count j = countUpdated \<and>
         nd_get upd_mean j =
           fdiv (fadd (fmul meanOld (of_count countOld)) (fmul meanNew (of_count countNew)))
                (of_count countUpdated))"
proof (cases lv)
  case None
  show ?thesis
    unfolding None tab_nth [OF assms(3)] combiner_mean_only [OF assms(1)]
    using assms(4) by (simp add: count_nonnan_nth mul_count_def div_count_def Let_def)
next
  case (Some v)
  with assms(2) have v: "fits (shape1 X) v" by (simp add: fits_opt_def)
  show ?thesis
    unfolding Some tab_nth [OF assms(3)] combiner_with_var [OF assms(1) v]
    using assms(4) by (simp add: count_nonnan_nth mul_count_def div_count_def Let_def)
qed

text \<open>
  The samples 1 and 3 of a feature (mean 2, variance 1, count 2) are merged with a batch whose
  one sample has the privatized mean 5: the count becomes 3 and the mean 3.
\<close>

theorem incremental_mean_formula_witness:
  "fits (shape1 [[Fin 5, Fin 4]]) (Arr [Fin 2, Fin 7]) \<and>
   fits_opt (shape1 [[Fin 5, Fin 4]]) (Some (Arr [Fin 1, Fin 0])) \<and>
   length [2, 0 :: int] = shape1 [[Fin 5, Fin 4]] \<and> 0 < shape1 [[Fin 5, Fin 4]] \<and>
   (\<exists>upd_mean upd_var upd_count calls.
     incremental_mean_and_var example_source [[Fin 5, Fin 4]] 1 () (Some (Arr [Fin 2, Fin 7]))
        (Some (Arr [Fin 1, Fin 0])) (Arr [2, 0]) =
       Inr ((Some upd_mean, upd_var, upd_count), calls) \<and>
     nd_get upd_count 0 = 3 \<and> nd_get upd_mean 0 = Fin 3)"
  using incremental_mean_formula [of "[[Fin 5, Fin 4]]" "Arr [Fin 2, Fin 7]"
      "Some (Arr [Fin 1, Fin 0])" "[2, 0]" 0 example_source 1 "()"]
  by (simp add: shape1_def fits_opt_def isnan_def of_count_def example_source_def Let_def)

text \<open>
  Claim C1. When variance is tracked, the combiner returns, and for each feature \<open>j\<close> with
  \<open>countOld > 0\<close> and \<open>countNew > 0\<close> the updated variance is
  \<open>unnormVarUpdated / countUpdated\<close> with
  \<open>unnormVarUpdated = unnormVarOld + unnormVarNew +
    (ratio / countUpdated) * (sumOld / ratio - sumNew)^2\<close>,
  \<open>unnormVarOld = varOld * countOld\<close>, \<open>unnormVarNew = varNew * countNew\<close> and
  \<open>ratio = countOld / countNew\<close>; for each feature with \<open>countOld = 0\<close> the correction is
  dropped and the updated variance is \<open>unnormVarNew / countUpdated\<close>.
\<close>

theorem incremental_variance_formula:
  assumes "fits (shape1 X) lm"
    and "fits (shape1 X) lv"
    and "length ns = shape1 X"
    and "j < shape1 X"
  shows "\<exists>upd_mean upd_var upd_count calls.
     incremental_mean_and_var src X eps rg (Some lm) (Some lv) (Arr ns) =
       Inr ((upd_mean, Some upd_var, upd_count), calls) \<and>
     (let countOld = ns ! j;
          countNew = int (length (filter (\<lambda>r. \<not> isnan (r ! j)) X));
          countUpdated = countOld + countNew;
          sumOld = fmul (nd_get lm j) (of_count countOld);
          sumNew = fmul (nanmean src X eps rg j) (of_count countNew);
          unnormVarOld = fmul (nd_get lv j) (of_count countOld);
          unnormVarNew = fmul (nanvar src X eps rg j) (of_count countNew);
          ratio = fdiv (of_count countOld) (of_count countNew);
          unnormVarUpdated =
            fadd (fadd unnormVarOld unnormVarNew)
                 (fmul (fdiv ratio (of_count countUpdated))
                       (fsquare (fsub (fdiv sumOld ratio) sumNew)))
      in (0 < countOld \<and> 0 < countNew \<longrightarrow>
            nd_get upd_var j = fdiv unnormVarUpdated (of_count countUpdated)) \<and>
         (countOld = 0 \<longrightarrow> nd_get upd_var j = fdiv unnormVarNew (of_count countUpdated)))"
  unfolding tab_nth [OF assms(3)] combiner_with_var [OF assms(1,2)]
  using assms(4)
  by (simp add: count_nonnan_nth mul_count_def div_count_def count_ratio_def Let_def)

text \<open>
  The samples 1 and 3 of the first feature are merged with the sample 5: the variance of
  1, 3 and 5 is 8/3. The second feature has no prior sample and takes the variance of the batch.
\<close>

theorem incremental_variance_formula_witness:
  "fits (shape1 [[Fin 5, Fin 4]]) (Arr [Fin 2, Fin 7]) \<and>
   fits (shape1 [[Fin 5, Fin 4]]) (Arr [Fin 1, Fin 9]) \<and>
   length [2, 0 :: int] = shape1 [[Fin 5, Fin 4]] \<and> 1 < shape1 [[Fin 5, Fin 4]] \<and>
   (\<exists>upd_mean upd_var upd_count calls.
     incremental_mean_and_var example_source [[Fin 5, Fin 4]] 1 () (Some (Arr [Fin 2, Fin 7]))
        (Some (Arr [Fin 1, Fin 9])) (Arr [2, 0]) =
       Inr ((upd_mean, Some upd_var, upd_count), calls) \<and>
     nd_get upd_var 0 = Fin (8 / 3)) \<and>
   (\<exists>upd_mean upd_var upd_count calls.
     incremental_mean_and_var example_source [[Fin 5, Fin 4]] 1 () (Some (Arr [Fin 2, Fin 7]))
        (Some (Arr [Fin 1, Fin 9])) (Arr [2, 0]) =
       Inr ((upd_mean, Some upd_var, upd_count), calls) \<and>
     nd_get upd_var 1 = Fin 0)"
  using incremental_variance_formula [of "[[Fin 5, Fin 4]]" "Arr [Fin 2, Fin 7]"
      "Arr [Fin 1, Fin 9]" "[2, 0]" 0 example_source 1 "()"]
    incremental_variance_formula [of "[[Fin 5, Fin 4]]" "Arr [Fin 2, Fin 7]"
      "Arr [Fin 1, Fin 9]" "[2, 0]" 1 example_source 1 "()"]
  by (simp add: shape1_def isnan_def of_count_def example_source_def Let_def fsquare_def
        fsub_def)

section \<open>A call of partial_fit that returns\<close>

lemma bnd_eq_Inr: "bnd m f = Inr y \<longleftrightarrow> (\<exists>x. m = Inr x \<and> f x = Inr y)"
  by (cases m) (simp_all add: bnd_def)

lemma check_array_Inr:
  "check_array X = Inr Y \<Longrightarrow> Y = X \<and> X \<noteq> [] \<and> 0 < shape1 X"
  by (auto simp: check_array_def split: if_splits)

lemma combiner_calls:
  assumes "incremental_mean_and_var src X eps rg lm lv n = Inr ((m', v', n'), calls)"
  shows "m' \<noteq> None \<and> (lv = None \<longrightarrow> v' = None \<and> calls = [NanMean eps]) \<and>
         (lv \<noteq> None \<longrightarrow> v' \<noteq> None \<and> calls = [NanMean eps, NanVar eps])"
  using assms unfolding incremental_mean_and_var_def Let_def
  by (auto simp: bnd_eq_Inr split: option.splits simp del: np2.simps mask_assign.simps)

lemma partial_fit_InrD:
  assumes "partial_fit cfg src st X = Inr (st', calls)"
  shows "X \<noteq> [] \<and> 0 < shape1 X \<and>
    (\<exists>m v n n' sc.
       (if \<not> with_mean cfg \<and> \<not> truthy (with_std cfg)
        then m = None \<and> v = None \<and> calls = [] \<and>
             iadd (count_vector st X) (Arr (map (\<lambda>c. int (shape0 X) - c) (count_nan X))) = Inr n
        else incremental_mean_and_var src X (epsilon_0 cfg) (range_opt cfg)
               (last_mean_of st) (last_var_of cfg st) (count_vector st X) = Inr ((m, v, n), calls)) \<and>
       reduce_count n = Inr n' \<and>
       derive_scale cfg v = Inr sc \<and>
       st' = \<lparr>n_samples_seen = Some n', mean_attr = m, var_attr = v, scale_attr = Some sc\<rparr>)"
proof -
  from assms obtain Y where Y: "check_array X = Inr Y"
    unfolding partial_fit_def bnd_eq_Inr by blast
  then have YX: "Y = X" and ne: "X \<noteq> []" "0 < shape1 X"
    using check_array_Inr by blast+
  show ?thesis
    using assms ne unfolding partial_fit_def Y YX bnd_Inr
    by (auto simp: bnd_eq_Inr split: if_splits)
qed


section \<open>The count after a call\<close>

lemma ptp_zero_iff:
  assumes "ns \<noteq> []"
  shows "ptp ns = 0 \<longleftrightarrow> (\<forall>c\<in>set ns. c = hd ns)"
proof -
  from assms obtain x xs where ns: "ns = x # xs" by (cases ns) auto
  have mx: "fold max xs x = Max (set ns)" and mn: "fold min xs x = Min (set ns)"
    unfolding ns by (simp_all only: Max.set_eq_fold Min.set_eq_fold)
  have fin: "finite (set ns)" "set ns \<noteq> {}" using assms by simp_all
  show ?thesis
  proof
    assume "ptp ns = 0"
    then have eq: "Max (set ns) = Min (set ns)"
      using mx mn by (simp add: ptp_def ns)
    show "\<forall>c\<in>set ns. c = hd ns"
    proof
      fix c assume c: "c \<in> set ns"
      have x: "x \<in> set ns" by (simp add: ns)
      have "Min (set ns) \<le> c" "c \<le> Max (set ns)"
        using Min_le [OF fin(1) c] Max_ge [OF fin(1) c] by blast+
      moreover have "Min (set ns) \<le> x" "x \<le> Max (set ns)"
        using Min_le [OF fin(1) x] Max_ge [OF fin(1) x] by blast+
      ultimately have "c = x" using eq by linarith
      then show "c = hd ns" by (simp add: ns)
    qed
  next
    assume all: "\<forall>c\<in>set ns. c = hd ns"
    then have "set ns = {x}" by (auto simp: ns)
    then have "Max (set ns) = x" "Min (set ns) = x" by simp_all
    then show "ptp ns = 0" using mx mn by (simp add: ptp_def ns)
  qed
qed

lemma replicate_tab: "replicate n x = map (\<lambda>j. x) [0..<n]"
  by (simp add: map_replicate_trivial)

lemma count_vector_tab:
  assumes "fits_opt (shape1 X) (n_samples_seen st)"
  shows "count_vector st X = Arr (map (seen_before st) [0..<shape1 X])"
proof (cases "n_samples_seen st")
  case None
  then show ?thesis
    by (simp add: count_vector_def seen_before_def replicate_tab)
next
  case (Some a)
  show ?thesis
  proof (cases a)
    case (Sc n)
    with Some show ?thesis
      by (simp add: count_vector_def seen_before_def replicate_tab)
  next
    case (Arr ns)
    with Some assms have "length ns = shape1 X" by (simp add: fits_opt_def)
    then have "Arr ns = Arr (map (\<lambda>j. ns ! j) [0..<shape1 X])" by (rule tab_nth)
    moreover have "seen_before st = (\<lambda>j. ns ! j)"
      by (simp add: seen_before_def Some Arr fun_eq_iff)
    ultimately show ?thesis using Some Arr
      by (simp add: count_vector_def)
  qed
qed

lemma combiner_count:
  assumes "incremental_mean_and_var src X eps rg lm lv n = Inr ((m', v', n'), calls)"
  shows "np2 (+) n (Arr (count_nonnan X)) = Inr n'"
  using assms unfolding incremental_mean_and_var_def Let_def
  by (auto simp: bnd_eq_Inr split: option.splits simp del: np2.simps mask_assign.simps)

lemma nan_nonnan: "int (length X) - int (length (filter (\<lambda>r. isnan (r ! j)) X)) =
    int (length (filter (\<lambda>r. \<not> isnan (r ! j)) X))"
  using sum_length_filter_compl [of "\<lambda>r. isnan (r ! j)" X] by simp

lemma cheap_count_tab:
  "Arr (map (\<lambda>c. int (shape0 X) - c) (count_nan X)) = Arr (count_nonnan X)"
  by (simp add: count_nan_def count_nonnan_def shape0_def nan_nonnan)

lemma iadd_tab:
  "iadd (Arr (map g [0..<n])) (Arr (map h [0..<n])) = Inr (Arr (map (\<lambda>j. g j + h j) [0..<n]))"
  by (simp add: map2_tab)

lemma partial_fit_count:
  assumes ok: "partial_fit cfg src st X = Inr (st', calls)"
    and fit: "fits_opt (shape1 X) (n_samples_seen st)"
  shows "\<exists>n'. n_samples_seen st' = Some n' \<and>
     reduce_count (Arr (map (\<lambda>j. seen_before st j + count_nonnan X ! j) [0..<shape1 X])) = Inr n'"
proof -
  from partial_fit_InrD [OF ok] obtain m v n n' sc where
    path: "if \<not> with_mean cfg \<and> \<not> truthy (with_std cfg)
        then m = None \<and> v = None \<and> calls = [] \<and>
             iadd (count_vector st X) (Arr (map (\<lambda>c. int (shape0 X) - c) (count_nan X))) = Inr n
        else incremental_mean_and_var src X (epsilon_0 cfg) (range_opt cfg)
               (last_mean_of st) (last_var_of cfg st) (count_vector st X) = Inr ((m, v, n), calls)"
    and red: "reduce_count n = Inr n'"
    and st': "st' = \<lparr>n_samples_seen = Some n', mean_attr = m, var_attr = v, scale_attr = Some sc\<rparr>"
    by blast
  have "n = Arr (map (\<lambda>j. seen_before st j + count_nonnan X ! j) [0..<shape1 X])"
  proof (cases "\<not> with_mean cfg \<and> \<not> truthy (with_std cfg)")
    case True
    with path have "iadd (count_vector st X) (Arr (count_nonnan X)) = Inr n"
      by (simp add: cheap_count_tab)
    then have "iadd (Arr (map (seen_before st) [0..<shape1 X]))
        (Arr (map (\<lambda>j. count_nonnan X ! j) [0..<shape1 X])) = Inr n"
      using count_vector_tab [OF fit] count_nonnan_tab [of X] by simp
    then show ?thesis unfolding iadd_tab by simp
  next
    case False
    with path have "incremental_mean_and_var src X (epsilon_0 cfg) (range_opt cfg)
        (last_mean_of st) (last_var_of cfg st) (count_vector st X) = Inr ((m, v, n), calls)"
      by simp
    then have "np2 (+) (count_vector st X) (Arr (count_nonnan X)) = Inr n"
      by (rule combiner_count)
    then have "np2 (+) (Arr (map (seen_before st) [0..<shape1 X]))
        (Arr (map (\<lambda>j. count_nonnan X ! j) [0..<shape1 X])) = Inr n"
      using count_vector_tab [OF fit] count_nonnan_tab [of X] by simp
    then show ?thesis unfolding np2_tab_tab by simp
  qed
  with red st' show ?thesis by simp
qed


text \<open>
  Claim C8. A prior count that is a scalar is repeated once per feature of the batch before
  the merge. After a call that returns, the count of feature \<open>j\<close> is its prior count (zero
  before the first call) plus the number of entries of the feature in the batch that are not
  missing; when these counts are equal for all features the estimator holds the one scalar,
  otherwise the vector. A prior count that is a vector has one entry per feature of the batch.
\<close>

theorem count_representation:
  assumes "partial_fit cfg src st X = Inr (st', calls)"
    and "fits_opt (shape1 X) (n_samples_seen st)"
  shows "(\<forall>n. n_samples_seen st = Some (Sc n) \<longrightarrow>
            count_vector st X = Arr (replicate (shape1 X) n)) \<and>
         (let prior = (\<lambda>j. case n_samples_seen st of
                          None \<Rightarrow> 0 | Some (Sc n) \<Rightarrow> n | Some (Arr ns) \<Rightarrow> ns ! j);
              counts = map (\<lambda>j. prior j + int (length (filter (\<lambda>r. \<not> isnan (r ! j)) X)))
                         [0..<shape1 X]
          in n_samples_seen st' =
               Some (if (\<forall>c\<in>set counts. c = hd counts) then Sc (hd counts) else Arr counts))"
proof -
  define counts where
    "counts = map (\<lambda>j. seen_before st j + count_nonnan X ! j) [0..<shape1 X]"
  from partial_fit_count [OF assms] obtain n' where
    n': "n_samples_seen st' = Some n'" and red: "reduce_count (Arr counts) = Inr n'"
    unfolding counts_def by blast
  have "0 < shape1 X" using partial_fit_InrD [OF assms(1)] by blast
  then have ne: "counts \<noteq> []" by (simp add: counts_def)
  from red ne have "n' = (if (\<forall>c\<in>set counts. c = hd counts) then Sc (hd counts) else Arr counts)"
    by (auto simp: ptp_zero_iff split: if_splits)
  moreover have "counts =
    map (\<lambda>j. (case n_samples_seen st of None \<Rightarrow> 0 | Some (Sc n) \<Rightarrow> n | Some (Arr ns) \<Rightarrow> ns ! j)
         + int (length (filter (\<lambda>r. \<not> isnan (r ! j)) X))) [0..<shape1 X]"
    unfolding counts_def
    by (rule map_cong) (auto simp: seen_before_def count_nonnan_nth split: option.splits nd.splits)
  ultimately show ?thesis using n'
    by (simp add: count_vector_def Let_def)
qed

text \<open>
  An estimator that saw two samples of each feature is given two more samples, one of them
  missing the second feature: the counts are 4 and 3 and stay a vector.
\<close>

theorem count_representation_witness:
  "partial_fit (example_config True (Some True)) example_source example_scaler
     [[Fin 1, NaN], [Fin 3, Fin 4]] =
   Inr (\<lparr>n_samples_seen = Some (Arr [4, 3]), mean_attr = Some (Arr [Fin (7 / 2), Fin (19 / 3)]),
         var_attr = Some (Arr [Fin (11 / 4), Fin (8 / 9)]),
         scale_attr = Some (Some (Arr [Fin (sqrt (11 / 4)), Fin (sqrt (8 / 9))]))\<rparr>,
        [NanMean (1 / 2), NanVar (1 / 2)]) \<and>
   fits_opt (shape1 [[Fin 1, NaN], [Fin 3, Fin 4]]) (n_samples_seen example_scaler) \<and>
   count_vector example_scaler [[Fin 1, NaN], [Fin 3, Fin 4]] =
     Arr (replicate (shape1 [[Fin 1, NaN], [Fin 3, Fin 4]]) 2)"
proof -
  have run: "partial_fit (example_config True (Some True)) example_source example_scaler
     [[Fin 1, NaN], [Fin 3, Fin 4]] =
   Inr (\<lparr>n_samples_seen = Some (Arr [4, 3]), mean_attr = Some (Arr [Fin (7 / 2), Fin (19 / 3)]),
         var_attr = Some (Arr [Fin (11 / 4), Fin (8 / 9)]),
         scale_attr = Some (Some (Arr [Fin (sqrt (11 / 4)), Fin (sqrt (8 / 9))]))\<rparr>,
        [NanMean (1 / 2), NanVar (1 / 2)])"
    by (simp add: model_defs example_config_def example_source_def example_scaler_def)
  have shape: "fits_opt (shape1 [[Fin 1, NaN], [Fin 3, Fin 4]]) (n_samples_seen example_scaler)"
    by (simp add: fits_opt_def example_scaler_def)
  have "\<forall>n. n_samples_seen example_scaler = Some (Sc n) \<longrightarrow>
      count_vector example_scaler [[Fin 1, NaN], [Fin 3, Fin 4]] =
      Arr (replicate (shape1 [[Fin 1, NaN], [Fin 3, Fin 4]]) n)"
    using count_representation [OF run shape] by (rule conjunct1)
  moreover have "n_samples_seen example_scaler = Some (Sc 2)"
    by (simp add: example_scaler_def)
  ultimately have "count_vector example_scaler [[Fin 1, NaN], [Fin 3, Fin 4]] =
      Arr (replicate (shape1 [[Fin 1, NaN], [Fin 3, Fin 4]]) 2)"
    by blast
  with run shape show ?thesis by blast
qed

section \<open>The invariant of the estimator\<close>

lemma np2_nd_all:
  assumes "np2 f a b = Inr c" and "nd_all P a" and "nd_all Q b"
    and "\<And>x y. P x \<Longrightarrow> Q y \<Longrightarrow> R (f x y)"
  shows "nd_all R c"
proof -
  have one: "length xs = 1 \<Longrightarrow> hd xs \<in> set xs" for xs :: "'z list"
    by (cases xs) auto
  show ?thesis
    using assms
    by (cases a; cases b)
       (auto simp: list_all_iff one split: if_splits elim!: in_set_zipE)
qed

lemma iadd_nd_all:
  assumes "iadd a b = Inr c" and "nd_all (\<lambda>n. 0 \<le> n) a" and "nd_all (\<lambda>n. 0 \<le> n) b"
  shows "nd_all (\<lambda>n. 0 \<le> n) c"
proof -
  have one: "length xs = 1 \<Longrightarrow> hd xs \<in> set xs" for xs :: "int list"
    by (cases xs) auto
  show ?thesis
    using assms
    by (cases a; cases b)
       (auto simp: list_all_iff one split: if_splits elim!: in_set_zipE)
qed

lemma reduce_count_nd_all:
  assumes "reduce_count a = Inr c" and "nd_all P a"
  shows "nd_all P c"
  using assms by (cases a) (auto simp: list_all_iff split: if_splits)

lemma count_vector_nonneg:
  assumes "counts_nonneg (n_samples_seen st)"
  shows "nd_all (\<lambda>n. 0 \<le> n) (count_vector st X)"
  using assms
  by (auto simp: counts_nonneg_def count_vector_def list_all_iff split: option.splits nd.splits)

lemma count_nonnan_nonneg: "nd_all (\<lambda>n. 0 \<le> n) (Arr (count_nonnan X))"
  by (simp add: count_nonnan_def list_all_iff)

lemma scaler_inv_new: "scaler_inv cfg new_scaler"
  by (simp add: scaler_inv_def new_scaler_def counts_nonneg_def)

lemma derive_scale_Inr:
  assumes "derive_scale cfg v = Inr sc"
  shows "(truthy (with_std cfg) \<longrightarrow>
            (\<exists>a. v = Some a \<and> sc = Some (handle_zeros_in_scale (npmap fsqrt a)))) \<and>
         (\<not> truthy (with_std cfg) \<longrightarrow> sc = None)"
  using assms by (auto simp: derive_scale_def split: if_splits option.splits)

lemma scaler_inv_step:
  assumes ok: "partial_fit cfg src st X = Inr (st', calls)"
    and inv: "scaler_inv cfg st"
  shows "scaler_inv cfg st'"
proof -
  from partial_fit_InrD [OF ok] obtain m v n n' sc where
    path: "if \<not> with_mean cfg \<and> \<not> truthy (with_std cfg)
        then m = None \<and> v = None \<and> calls = [] \<and>
             iadd (count_vector st X) (Arr (map (\<lambda>c. int (shape0 X) - c) (count_nan X))) = Inr n
        else incremental_mean_and_var src X (epsilon_0 cfg) (range_opt cfg)
               (last_mean_of st) (last_var_of cfg st) (count_vector st X) = Inr ((m, v, n), calls)"
    and red: "reduce_count n = Inr n'"
    and sc: "derive_scale cfg v = Inr sc"
    and st': "st' = \<lparr>n_samples_seen = Some n', mean_attr = m, var_attr = v, scale_attr = Some sc\<rparr>"
    by blast
  have cv: "nd_all (\<lambda>n. 0 \<le> n) (count_vector st X)"
    using inv by (simp add: scaler_inv_def count_vector_nonneg)
  show ?thesis
  proof (cases "\<not> with_mean cfg \<and> \<not> truthy (with_std cfg)")
    case True
    with path have mv: "m = None" "v = None"
      and "iadd (count_vector st X) (Arr (count_nonnan X)) = Inr n"
      by (simp_all add: cheap_count_tab)
    then have "nd_all (\<lambda>n. 0 \<le> n) n"
      using iadd_nd_all cv count_nonnan_nonneg by blast
    then have "nd_all (\<lambda>n. 0 \<le> n) n'" using red reduce_count_nd_all by blast
    with True mv show ?thesis by (simp add: scaler_inv_def st' counts_nonneg_def)
  next
    case False
    with path have inc: "incremental_mean_and_var src X (epsilon_0 cfg) (range_opt cfg)
        (last_mean_of st) (last_var_of cfg st) (count_vector st X) = Inr ((m, v, n), calls)"
      by simp
    have "np2 (+) (count_vector st X) (Arr (count_nonnan X)) = Inr n"
      using inc by (rule combiner_count)
    then have "nd_all (\<lambda>n. 0 \<le> n) n"
      using np2_nd_all [where P = "\<lambda>n. 0 \<le> n" and Q = "\<lambda>n. 0 \<le> n" and R = "\<lambda>n. 0 \<le> n"]
        cv count_nonnan_nonneg by fastforce
    then have n': "nd_all (\<lambda>n. 0 \<le> n) n'" using red reduce_count_nd_all by blast
    from combiner_calls [OF inc] have m: "m \<noteq> None"
      and v: "v = None \<longleftrightarrow> last_var_of cfg st = None" by auto
    have "v = None \<longleftrightarrow> \<not> truthy (with_std cfg)"
    proof (cases "truthy (with_std cfg)")
      case True
      with derive_scale_Inr [OF sc] show ?thesis by auto
    next
      case nt: False
      have "last_var_of cfg st = None"
        using inv nt by (auto simp: last_var_of_def scaler_inv_def)
      with v nt show ?thesis by simp
    qed
    with m n' False show ?thesis by (auto simp: scaler_inv_def st' counts_nonneg_def)
  qed
qed


section \<open>The shapes after a call\<close>

text \<open>
  Batches of one number of features keep the arrays of the estimator at that length, so the
  shape a statement about a call asks of the estimator holds along any sequence of such calls,
  as the invariant does.
\<close>

lemma shape_ok_new: "shape_ok n new_scaler"
  by (simp add: shape_ok_def new_scaler_def fits_opt_def)

lemma shape_ok_step:
  assumes ok: "partial_fit cfg src st X = Inr (st', calls)"
    and shp: "shape_ok (shape1 X) st"
  shows "shape_ok (shape1 X) st'"
proof -
  have fit: "fits_opt (shape1 X) (n_samples_seen st)"
    using shp by (simp add: shape_ok_def)
  from partial_fit_count [OF ok fit] obtain n' where
    n': "n_samples_seen st' = Some n'"
    and red: "reduce_count (Arr (map (\<lambda>j. seen_before st j + count_nonnan X ! j)
                [0..<shape1 X])) = Inr n'"
    by blast
  from red have fn: "fits (shape1 X) n'" by (auto split: if_splits)
  from partial_fit_InrD [OF ok] obtain m v n n'' sc where
    path: "if \<not> with_mean cfg \<and> \<not> truthy (with_std cfg)
        then m = None \<and> v = None \<and> calls = [] \<and>
             iadd (count_vector st X) (Arr (map (\<lambda>c. int (shape0 X) - c) (count_nan X))) = Inr n
        else incremental_mean_and_var src X (epsilon_0 cfg) (range_opt cfg)
               (last_mean_of st) (last_var_of cfg st) (count_vector st X) = Inr ((m, v, n), calls)"
    and st': "st' = \<lparr>n_samples_seen = Some n'', mean_attr = m, var_attr = v, scale_attr = Some sc\<rparr>"
    by blast
  have "fits_opt (shape1 X) m \<and> fits_opt (shape1 X) v"
  proof (cases "\<not> with_mean cfg \<and> \<not> truthy (with_std cfg)")
    case True
    with path show ?thesis by (simp add: fits_opt_def)
  next
    case False
    with path have inc: "incremental_mean_and_var src X (epsilon_0 cfg) (range_opt cfg)
        (last_mean_of st) (last_var_of cfg st) (count_vector st X) = Inr ((m, v, n), calls)"
      by simp
    have cv: "count_vector st X = Arr (map (seen_before st) [0..<shape1 X])"
      using fit by (rule count_vector_tab)
    from inc obtain lm where lm: "last_mean_of st = Some lm"
      by (cases "last_mean_of st") (simp_all add: incremental_mean_and_var_def)
    have flm: "fits (shape1 X) lm"
      using shp lm by (auto simp: shape_ok_def last_mean_of_def fits_opt_def split: if_splits)
    show ?thesis
    proof (cases "last_var_of cfg st")
      case None
      from inc show ?thesis
        unfolding lm None cv combiner_mean_only [OF flm] by (auto simp: fits_opt_def)
    next
      case (Some lv)
      have flv: "fits (shape1 X) lv"
        using shp Some
        by (auto simp: shape_ok_def last_var_of_def fits_opt_def split: if_splits)
      from inc show ?thesis
        unfolding lm Some cv combiner_with_var [OF flm flv] by (auto simp: fits_opt_def)
    qed
  qed
  with fn n' show ?thesis by (simp add: shape_ok_def st' fits_opt_def)
qed

section \<open>The scale and the budget\<close>

lemma handle_zeros_sqrt:
  "handle_zeros_in_scale (npmap fsqrt a) =
     npmap (\<lambda>x. if fsqrt x = Fin 0 then Fin 1 else fsqrt x) a"
  by (cases a) (simp_all add: handle_zeros_in_scale_def)

text \<open>
  Claim C9. After a call with \<open>with_std = True\<close> the scale is the square root of each entry
  of the variance, with each root that is zero replaced by one; after a call with
  \<open>with_std = False\<close> the scale is \<open>None\<close>.
\<close>

theorem scale_from_variance:
  assumes "partial_fit cfg src st X = Inr (st', calls)"
  shows "(with_std cfg = Some True \<longrightarrow>
            (\<exists>v. var_attr st' = Some v \<and>
                 scale_attr st' =
                   Some (Some (npmap (\<lambda>x. if fsqrt x = Fin 0 then Fin 1 else fsqrt x) v)))) \<and>
         (with_std cfg = Some False \<longrightarrow> scale_attr st' = Some None)"
proof -
  from partial_fit_InrD [OF assms] obtain m v n' sc where
    sc: "derive_scale cfg v = Inr sc"
    and st': "st' = \<lparr>n_samples_seen = Some n', mean_attr = m, var_attr = v, scale_attr = Some sc\<rparr>"
    by blast
  from derive_scale_Inr [OF sc] show ?thesis
    by (auto simp: st' truthy_def handle_zeros_sqrt)
qed

text \<open>
  A second batch gives the variances 8/3 and 8/9 and their roots; a first batch of one sample
  gives the variance zero and the scale one; without \<open>with_std\<close> the scale is \<open>None\<close>.
\<close>

theorem scale_from_variance_witness:
  "partial_fit (example_config True (Some True)) example_source example_scaler [[Fin 5, Fin 4]] =
     Inr (\<lparr>n_samples_seen = Some (Sc 3), mean_attr = Some (Arr [Fin 3, Fin (19 / 3)]),
           var_attr = Some (Arr [Fin (8 / 3), Fin (8 / 9)]),
           scale_attr = Some (Some (Arr [Fin (sqrt (8 / 3)), Fin (sqrt (8 / 9))]))\<rparr>,
          [NanMean (1 / 2), NanVar (1 / 2)]) \<and>
   partial_fit (example_config True (Some True)) example_source new_scaler [[Fin 5, Fin 4]] =
     Inr (\<lparr>n_samples_seen = Some (Sc 1), mean_attr = Some (Arr [Fin 5, Fin 5]),
           var_attr = Some (Arr [Fin 0, Fin 0]),
           scale_attr = Some (Some (Arr [Fin 1, Fin 1]))\<rparr>,
          [NanMean (1 / 2), NanVar (1 / 2)]) \<and>
   partial_fit (example_config True (Some False)) example_source new_scaler [[Fin 5, Fin 4]] =
     Inr (\<lparr>n_samples_seen = Some (Sc 1), mean_attr = Some (Arr [Fin 5, Fin 5]),
           var_attr = None, scale_attr = Some None\<rparr>,
          [NanMean (1 / 2)])"
proof -
  have run1: "partial_fit (example_config True (Some True)) example_source example_scaler
      [[Fin 5, Fin 4]] =
     Inr (\<lparr>n_samples_seen = Some (Sc 3), mean_attr = Some (Arr [Fin 3, Fin (19 / 3)]),
           var_attr = Some (Arr [Fin (8 / 3), Fin (8 / 9)]),
           scale_attr = Some (Some (Arr [Fin (sqrt (8 / 3)), Fin (sqrt (8 / 9))]))\<rparr>,
          [NanMean (1 / 2), NanVar (1 / 2)])"
    by (simp add: model_defs example_config_def example_source_def example_scaler_def)
  have run2: "partial_fit (example_config True (Some True)) example_source new_scaler
      [[Fin 5, Fin 4]] =
     Inr (\<lparr>n_samples_seen = Some (Sc 1), mean_attr = Some (Arr [Fin 5, Fin 5]),
           var_attr = Some (Arr [Fin 0, Fin 0]),
           scale_attr = Some (Some (Arr [Fin 1, Fin 1]))\<rparr>,
          [NanMean (1 / 2), NanVar (1 / 2)])"
    by (simp add: model_defs example_config_def example_source_def)
  have run3: "partial_fit (example_config True (Some False)) example_source new_scaler
      [[Fin 5, Fin 4]] =
     Inr (\<lparr>n_samples_seen = Some (Sc 1), mean_attr = Some (Arr [Fin 5, Fin 5]),
           var_attr = None, scale_attr = Some None\<rparr>,
          [NanMean (1 / 2)])"
    by (simp add: model_defs example_config_def example_source_def)
  from scale_from_variance [OF run1] scale_from_variance [OF run2] scale_from_variance [OF run3]
  show ?thesis using run1 run2 run3 by simp
qed

text \<open>
  Claim C4. A call with \<open>with_std = True\<close> that returns has asked for the privatized mean
  with half of \<open>epsilon\<close> and then for the privatized variance with the other half, and for
  nothing else.
\<close>

theorem budget_split_with_std:
  assumes "partial_fit cfg src st X = Inr (st', calls)"
    and "with_std cfg = Some True"
  shows "calls = [NanMean (epsilon cfg / 2), NanVar (epsilon cfg - epsilon cfg / 2)]"
proof -
  from partial_fit_InrD [OF assms(1)] obtain m v n n' sc where
    path: "if \<not> with_mean cfg \<and> \<not> truthy (with_std cfg)
        then m = None \<and> v = None \<and> calls = [] \<and>
             iadd (count_vector st X) (Arr (map (\<lambda>c. int (shape0 X) - c) (count_nan X))) = Inr n
        else incremental_mean_and_var src X (epsilon_0 cfg) (range_opt cfg)
               (last_mean_of st) (last_var_of cfg st) (count_vector st X) = Inr ((m, v, n), calls)"
    and sc: "derive_scale cfg v = Inr sc"
    by blast
  have tr: "truthy (with_std cfg)" using assms(2) by (simp add: truthy_def)
  with path have inc: "incremental_mean_and_var src X (epsilon_0 cfg) (range_opt cfg)
        (last_mean_of st) (last_var_of cfg st) (count_vector st X) = Inr ((m, v, n), calls)"
    by simp
  from derive_scale_Inr [OF sc] tr have "v \<noteq> None" by auto
  with combiner_calls [OF inc] have "calls = [NanMean (epsilon_0 cfg), NanVar (epsilon_0 cfg)]"
    by auto
  then show ?thesis using assms(2) by (simp add: epsilon_0_def)
qed

text \<open>With \<open>epsilon = 1\<close> each of the two statistics receives 1/2.\<close>

theorem budget_split_with_std_witness:
  "partial_fit (example_config True (Some True)) example_source new_scaler [[Fin 5, Fin 4]] =
     Inr (\<lparr>n_samples_seen = Some (Sc 1), mean_attr = Some (Arr [Fin 5, Fin 5]),
           var_attr = Some (Arr [Fin 0, Fin 0]),
           scale_attr = Some (Some (Arr [Fin 1, Fin 1]))\<rparr>,
          [NanMean (1 / 2), NanVar (1 / 2)]) \<and>
   with_std (example_config True (Some True)) = Some True \<and>
   epsilon (example_config True (Some True)) = 1"
proof -
  have run: "partial_fit (example_config True (Some True)) example_source new_scaler
      [[Fin 5, Fin 4]] =
     Inr (\<lparr>n_samples_seen = Some (Sc 1), mean_attr = Some (Arr [Fin 5, Fin 5]),
           var_attr = Some (Arr [Fin 0, Fin 0]),
           scale_attr = Some (Some (Arr [Fin 1, Fin 1]))\<rparr>,
          [NanMean (1 / 2), NanVar (1 / 2)])"
    by (simp add: model_defs example_config_def example_source_def)
  have std: "with_std (example_config True (Some True)) = Some True"
    by (simp add: example_config_def)
  from budget_split_with_std [OF run std] show ?thesis
    using run std by (simp add: example_config_def)
qed

section \<open>The statistics when variance is not requested\<close>

lemma last_var_of_None:
  assumes "scaler_inv cfg st" and "\<not> truthy (with_std cfg)"
  shows "last_var_of cfg st = None"
  using assms by (auto simp: last_var_of_def scaler_inv_def)

text \<open>
  Claim C10, as the code has it. On an estimator built under one configuration whose
  \<open>with_std\<close> is \<open>None\<close> or \<open>False\<close>, a call that returns leaves the variance and the
  scale \<open>None\<close> and never asks for the privatized variance. When \<open>with_mean\<close> is true it
  asks once for the privatized mean, with the whole of \<open>epsilon\<close> when \<open>with_std\<close> is
  \<open>None\<close> and with half of it when \<open>with_std\<close> is \<open>False\<close>. When \<open>with_mean\<close> is false
  it asks for no statistic at all and the mean is \<open>None\<close>.
\<close>

theorem no_variance_without_with_std:
  assumes ok: "partial_fit cfg src st X = Inr (st', calls)"
    and inv: "scaler_inv cfg st"
    and std: "with_std cfg = None \<or> with_std cfg = Some False"
  shows "var_attr st' = None \<and> scale_attr st' = Some None \<and> (\<forall>e. NanVar e \<notin> set calls) \<and>
         (with_mean cfg \<and> with_std cfg = None \<longrightarrow> calls = [NanMean (epsilon cfg)]) \<and>
         (with_mean cfg \<and> with_std cfg = Some False \<longrightarrow> calls = [NanMean (epsilon cfg / 2)]) \<and>
         (\<not> with_mean cfg \<longrightarrow> calls = [] \<and> mean_attr st' = None)"
proof -
  from partial_fit_InrD [OF ok] obtain m v n n' sc where
    path: "if \<not> with_mean cfg \<and> \<not> truthy (with_std cfg)
        then m = None \<and> v = None \<and> calls = [] \<and>
             iadd (count_vector st X) (Arr (map (\<lambda>c. int (shape0 X) - c) (count_nan X))) = Inr n
        else incremental_mean_and_var src X (epsilon_0 cfg) (range_opt cfg)
               (last_mean_of st) (last_var_of cfg st) (count_vector st X) = Inr ((m, v, n), calls)"
    and sc: "derive_scale cfg v = Inr sc"
    and st': "st' = \<lparr>n_samples_seen = Some n', mean_attr = m, var_attr = v, scale_attr = Some sc\<rparr>"
    by blast
  have nt: "\<not> truthy (with_std cfg)" using std by (auto simp: truthy_def)
  from derive_scale_Inr [OF sc] nt have scN: "sc = None" by simp
  show ?thesis
  proof (cases "with_mean cfg")
    case False
    with path nt show ?thesis by (simp add: st' scN)
  next
    case True
    with path have inc: "incremental_mean_and_var src X (epsilon_0 cfg) (range_opt cfg)
        (last_mean_of st) (last_var_of cfg st) (count_vector st X) = Inr ((m, v, n), calls)"
      by simp
    from combiner_calls [OF inc] last_var_of_None [OF inv nt]
    have "v = None" and "calls = [NanMean (epsilon_0 cfg)]" by auto
    with True show ?thesis by (auto simp: st' scN epsilon_0_def)
  qed
qed

text \<open>With \<open>with_std = None\<close>, \<open>with_mean = True\<close> and \<open>epsilon = 1\<close> the mean receives 1.\<close>

theorem no_variance_without_with_std_witness:
  "partial_fit (example_config True None) example_source new_scaler [[Fin 5, Fin 4]] =
     Inr (\<lparr>n_samples_seen = Some (Sc 1), mean_attr = Some (Arr [Fin 5, Fin 5]),
           var_attr = None, scale_attr = Some None\<rparr>, [NanMean 1]) \<and>
   scaler_inv (example_config True None) new_scaler \<and>
   with_mean (example_config True None) \<and>
   with_std (example_config True None) = None \<and>
   epsilon (example_config True None) = 1"
proof -
  have run: "partial_fit (example_config True None) example_source new_scaler [[Fin 5, Fin 4]] =
     Inr (\<lparr>n_samples_seen = Some (Sc 1), mean_attr = Some (Arr [Fin 5, Fin 5]),
           var_attr = None, scale_attr = Some None\<rparr>, [NanMean 1])"
    by (simp add: model_defs example_config_def example_source_def)
  have std: "with_std (example_config True None) = None
      \<or> with_std (example_config True None) = Some False"
    by (simp add: example_config_def)
  from no_variance_without_with_std [OF run scaler_inv_new std]
  show ?thesis using run scaler_inv_new [of "example_config True None"]
    by (simp add: example_config_def)
qed

text \<open>
  With \<open>with_std = None\<close> and \<open>with_mean = False\<close> the call takes the path of line 183:
  the privatized mean is not computed.
\<close>

theorem mean_not_computed_counterexample:
  "with_std (example_config False None) = None \<and>
   partial_fit (example_config False None) example_source new_scaler [[Fin 5, Fin 4]] =
     Inr (\<lparr>n_samples_seen = Some (Sc 1), mean_attr = None, var_attr = None,
           scale_attr = Some None\<rparr>, [])"
  by (simp add: model_defs example_config_def)

text \<open>
  Claim C3. With \<open>with_std = False\<close> and \<open>epsilon = 1\<close> the privatized mean is asked for with
  1/2, not with 1: line 156 tests \<open>with_std is None\<close>, while lines 175, 180 and 195 test
  the truth value of \<open>with_std\<close>. No variance is computed, so half of the budget is unused.
\<close>

theorem budget_without_std_evaluation:
  "epsilon (example_config True (Some False)) = 1 \<and>
   partial_fit (example_config True (Some False)) example_source new_scaler [[Fin 5, Fin 4]] =
     Inr (\<lparr>n_samples_seen = Some (Sc 1), mean_attr = Some (Arr [Fin 5, Fin 5]),
           var_attr = None, scale_attr = Some None\<rparr>, [NanMean (1 / 2)])"
  by (simp add: model_defs example_config_def example_source_def)


section \<open>A batch without an observation of a feature\<close>

lemma zero_count_mean: "div_count (fadd (mul_count a 0) (mul_count b 0)) 0 = NaN"
  by (cases a; cases b) (simp_all add: div_count_def mul_count_def of_count_def)

lemma correction_nan:
  assumes "0 < c"
  shows "fmul (div_count (count_ratio c 0) (c + 0))
           (fsquare (fsub (fdiv s (count_ratio c 0)) (mul_count m 0))) = NaN"
proof -
  have r: "count_ratio c 0 = PInf" using assms by (simp add: count_ratio_def of_count_def)
  have d: "div_count PInf (c + 0) = PInf" using assms by (simp add: div_count_def of_count_def)
  have "fsquare (fsub (fdiv s PInf) (mul_count m 0)) = Fin 0 \<or>
        fsquare (fsub (fdiv s PInf) (mul_count m 0)) = NaN"
    by (cases s; cases m) (simp_all add: fsquare_def fsub_def mul_count_def of_count_def)
  then show ?thesis unfolding r d by auto
qed

lemma variance_nan_without_new_samples:
  assumes "fits (shape1 X) lm" and "fits (shape1 X) lv"
    and "length ns = shape1 X" and "j < shape1 X"
    and "0 < ns ! j" and "count_nonnan X ! j = 0"
  shows "\<exists>upd_mean vs upd_count calls.
     incremental_mean_and_var src X eps rg (Some lm) (Some lv) (Arr ns) =
       Inr ((upd_mean, Some (Arr vs), upd_count), calls) \<and> vs ! j = NaN"
proof -
  have "fadd x (fmul (div_count (count_ratio (ns ! j) 0) (ns ! j + 0))
           (fsquare (fsub (fdiv s (count_ratio (ns ! j) 0)) (mul_count m 0)))) = NaN" for x s m
    unfolding correction_nan [OF assms(5)] by (cases x) simp_all
  then show ?thesis
    unfolding tab_nth [OF assms(3)] combiner_with_var [OF assms(1,2)]
    using assms(4,5,6) by (simp add: div_count_def)
qed

text \<open>
  Claim C5. A feature with mean 2, variance 1 and count 2 is merged with a batch in which the
  feature is missing. The ratio \<open>countOld / countNew\<close> is infinite and the correction is
  infinity times zero: the updated variance is not-a-number, where the prior unnormalized
  variance 2 would give the variance 1. Lines 125 and 126 guard \<open>countOld = 0\<close> only;
  \<open>variance_nan_without_new_samples\<close> shows the same for every such merge.
\<close>

theorem missing_batch_variance_evaluation:
  "incremental_mean_and_var example_source [[NaN]] 1 () (Some (Arr [Fin 2])) (Some (Arr [Fin 1]))
     (Arr [2]) =
   Inr ((Some (Arr [Fin 2]), Some (Arr [NaN]), Arr [2]), [NanMean 1, NanVar 1])"
  by (simp add: model_defs example_source_def)

text \<open>
  Claim C6. One feature is missing in one batch and observed once in the other; the
  privatized mean of the observed batch is 5 and its variance 0. With the missing batch first
  the mean ends not-a-number (the first call divides zero by a count of zero, and the second
  multiplies that mean by the count zero); with the missing batch second the variance ends
  not-a-number. The count is 1 in both orders.
\<close>

theorem missing_batch_order_evaluation:
  "bnd (partial_fit (example_config True (Some True)) example_source new_scaler [[NaN]])
     (\<lambda>(s, c). partial_fit (example_config True (Some True)) example_source s [[Fin 5]]) =
   Inr (\<lparr>n_samples_seen = Some (Sc 1), mean_attr = Some (Arr [NaN]),
         var_attr = Some (Arr [Fin 0]), scale_attr = Some (Some (Arr [Fin 1]))\<rparr>,
        [NanMean (1 / 2), NanVar (1 / 2)]) \<and>
   bnd (partial_fit (example_config True (Some True)) example_source new_scaler [[Fin 5]])
     (\<lambda>(s, c). partial_fit (example_config True (Some True)) example_source s [[NaN]]) =
   Inr (\<lparr>n_samples_seen = Some (Sc 1), mean_attr = Some (Arr [Fin 5]),
         var_attr = Some (Arr [NaN]), scale_attr = Some (Some (Arr [NaN]))\<rparr>,
        [NanMean (1 / 2), NanVar (1 / 2)])"
  by (simp add: model_defs example_config_def example_source_def)


section \<open>A feature that was never observed\<close>

lemma reduce_count_nth:
  assumes "reduce_count (Arr cs) = Inr n'" and "j < length cs"
  shows "nd_get n' j = cs ! j"
proof (cases "ptp cs = 0")
  case True
  from assms(2) have ne: "cs \<noteq> []" by auto
  with True have "\<forall>c\<in>set cs. c = hd cs" by (simp add: ptp_zero_iff)
  then have "cs ! j = hd cs" using assms(2) by simp
  with assms(1) ne True show ?thesis by auto
next
  case False
  with assms show ?thesis by (auto split: if_splits)
qed

lemma seen_before_nonneg:
  assumes "counts_nonneg (n_samples_seen st)" and "fits_opt n (n_samples_seen st)" and "j < n"
  shows "0 \<le> seen_before st j"
proof (cases "n_samples_seen st")
  case None
  then show ?thesis by (simp add: seen_before_def)
next
  case (Some a)
  with assms show ?thesis
    by (cases a) (auto simp: seen_before_def counts_nonneg_def fits_opt_def list_all_length)
qed

lemma partial_fit_tracked_mean:
  assumes ok: "partial_fit cfg src st X = Inr (st', calls)"
    and shp: "shape_ok (shape1 X) st"
    and tr: "with_mean cfg \<or> truthy (with_std cfg)"
  shows "\<exists>lm. last_mean_of st = Some lm \<and> fits (shape1 X) lm \<and>
     mean_attr st' = Some (Arr (map (\<lambda>j. div_count
        (fadd (mul_count (nd_get lm j) (seen_before st j))
              (mul_count (nanmean src X (epsilon_0 cfg) (range_opt cfg) j) (count_nonnan X ! j)))
        (seen_before st j + count_nonnan X ! j)) [0..<shape1 X]))"
proof -
  from partial_fit_InrD [OF ok] tr obtain m v n n' sc where
    inc: "incremental_mean_and_var src X (epsilon_0 cfg) (range_opt cfg)
        (last_mean_of st) (last_var_of cfg st) (count_vector st X) = Inr ((m, v, n), calls)"
    and st': "st' = \<lparr>n_samples_seen = Some n', mean_attr = m, var_attr = v, scale_attr = Some sc\<rparr>"
    by auto
  have cv: "count_vector st X = Arr (map (seen_before st) [0..<shape1 X])"
    using shp by (simp add: shape_ok_def count_vector_tab)
  from inc obtain lm where lm: "last_mean_of st = Some lm"
    by (cases "last_mean_of st") (simp_all add: incremental_mean_and_var_def)
  have flm: "fits (shape1 X) lm"
    using shp lm by (auto simp: shape_ok_def last_mean_of_def fits_opt_def split: if_splits)
  have "m = Some (Arr (map (\<lambda>j. div_count
        (fadd (mul_count (nd_get lm j) (seen_before st j))
              (mul_count (nanmean src X (epsilon_0 cfg) (range_opt cfg) j) (count_nonnan X ! j)))
        (seen_before st j + count_nonnan X ! j)) [0..<shape1 X]))"
  proof (cases "last_var_of cfg st")
    case None
    from inc show ?thesis
      unfolding lm None cv combiner_mean_only [OF flm] by simp
  next
    case (Some lv)
    have flv: "fits (shape1 X) lv"
      using shp Some
      by (auto simp: shape_ok_def last_var_of_def fits_opt_def split: if_splits)
    from inc show ?thesis
      unfolding lm Some cv combiner_with_var [OF flm flv] by simp
  qed
  with lm flm show ?thesis by (simp add: st')
qed

text \<open>
  Claim C7, as the code has it. After a call that returns on an estimator whose arrays have
  one entry per feature of the batch, a feature whose count is zero has the mean not-a-number
  whenever a statistic is tracked (\<open>with_mean\<close> or \<open>with_std\<close> is true); when neither is
  tracked the estimator holds no mean at all (\<open>None\<close>). A number is never reported.
\<close>

theorem unobserved_feature_mean:
  assumes ok: "partial_fit cfg src st X = Inr (st', calls)"
    and inv: "scaler_inv cfg st"
    and shp: "shape_ok (shape1 X) st"
    and j: "j < shape1 X"
    and zero: "n_samples_seen st' = Some n'" "nd_get n' j = 0"
  shows "(with_mean cfg \<or> with_std cfg = Some True \<longrightarrow>
            (\<exists>ms. mean_attr st' = Some (Arr ms) \<and> length ms = shape1 X \<and> ms ! j = NaN)) \<and>
         (\<not> with_mean cfg \<and> with_std cfg \<noteq> Some True \<longrightarrow> mean_attr st' = None)"
proof (cases "with_mean cfg \<or> truthy (with_std cfg)")
  case False
  with partial_fit_InrD [OF ok] show ?thesis by (auto simp: truthy_def)
next
  case True
  have fit: "fits_opt (shape1 X) (n_samples_seen st)"
    using shp by (simp add: shape_ok_def)
  from partial_fit_count [OF ok fit] zero(1) have
    "reduce_count (Arr (map (\<lambda>j. seen_before st j + count_nonnan X ! j) [0..<shape1 X])) = Inr n'"
    by simp
  from reduce_count_nth [OF this] j zero(2)
  have sum: "seen_before st j + count_nonnan X ! j = 0" by simp
  have "0 \<le> seen_before st j"
    using inv fit j by (auto simp: scaler_inv_def intro: seen_before_nonneg)
  moreover have "0 \<le> count_nonnan X ! j" using j by (simp add: count_nonnan_nth)
  ultimately have z: "seen_before st j = 0" "count_nonnan X ! j = 0" using sum by linarith+
  from partial_fit_tracked_mean [OF ok shp True] obtain lm where
    "mean_attr st' = Some (Arr (map (\<lambda>j. div_count
        (fadd (mul_count (nd_get lm j) (seen_before st j))
              (mul_count (nanmean src X (epsilon_0 cfg) (range_opt cfg) j) (count_nonnan X ! j)))
        (seen_before st j + count_nonnan X ! j)) [0..<shape1 X]))"
    by blast
  with True j z show ?thesis by (simp add: truthy_def zero_count_mean)
qed

text \<open>The second feature of the first batch is missing: its count is 0 and its mean not-a-number.\<close>

theorem unobserved_feature_mean_witness:
  "partial_fit (example_config True (Some True)) example_source new_scaler [[Fin 1, NaN]] =
     Inr (\<lparr>n_samples_seen = Some (Arr [1, 0]), mean_attr = Some (Arr [Fin 5, NaN]),
           var_attr = Some (Arr [Fin 0, NaN]),
           scale_attr = Some (Some (Arr [Fin 1, NaN]))\<rparr>,
          [NanMean (1 / 2), NanVar (1 / 2)]) \<and>
   scaler_inv (example_config True (Some True)) new_scaler \<and>
   shape_ok (shape1 [[Fin 1, NaN]]) new_scaler \<and> 1 < shape1 [[Fin 1, NaN]] \<and>
   nd_get (Arr [1, 0 :: int]) 1 = 0 \<and>
   with_mean (example_config True (Some True))"
proof -
  have run: "partial_fit (example_config True (Some True)) example_source new_scaler
      [[Fin 1, NaN]] =
     Inr (\<lparr>n_samples_seen = Some (Arr [1, 0]), mean_attr = Some (Arr [Fin 5, NaN]),
           var_attr = Some (Arr [Fin 0, NaN]),
           scale_attr = Some (Some (Arr [Fin 1, NaN]))\<rparr>,
          [NanMean (1 / 2), NanVar (1 / 2)])"
    by (simp add: model_defs example_config_def example_source_def)
  have shp: "shape_ok (shape1 [[Fin 1, NaN]]) new_scaler"
    by (simp add: shape_ok_def new_scaler_def fits_opt_def)
  have j: "1 < shape1 [[Fin 1, NaN]]" by (simp add: shape1_def)
  from unobserved_feature_mean [OF run scaler_inv_new shp j, of "Arr [1, 0]"]
  show ?thesis using run shp j scaler_inv_new [of "example_config True (Some True)"]
    by (simp add: example_config_def)
qed

text \<open>
  With \<open>with_mean = False\<close> and \<open>with_std = False\<close> the call returns, the second feature
  has the count 0 and the estimator holds the mean \<open>None\<close>, not an array with not-a-number.
\<close>

theorem unobserved_feature_counterexample:
  "partial_fit (example_config False (Some False)) example_source new_scaler [[Fin 1, NaN]] =
     Inr (\<lparr>n_samples_seen = Some (Arr [1, 0]), mean_attr = None, var_attr = None,
           scale_attr = Some None\<rparr>, [])"
  by (simp add: model_defs example_config_def)

end
